theory Spec2Isabelle
  imports Complex_Main
begin

section \<open>CubeSat EPS simulation: the energy-balance engine of eps_simulation.py\<close>

text \<open>
  The script is a sequence of module-level parameters followed by one nested loop over
  the time grid and the panel configurations. The parameters are collected in the record
  \<open>params\<close>; \<open>default_params\<close> holds the values written in the script. Python floats are
  modelled as real numbers, numpy arrays as lists, and the exceptions the script can raise
  before or inside the loop as values of \<open>error\<close>.
\<close>

subsection \<open>Parameters (lines 8 to 56)\<close>

record params =
  dt :: real
  orbit_period :: real
  num_orbits :: real
  G_sun :: real
  A_panel :: real
  packing_eff :: real
  num_panels :: "int list"
  eta_cell :: real
  eta_mppt :: real
  eta_wiring :: real
  P_OBC :: real
  P_ADCS :: real
  P_COMMS :: real
  P_PAYLOAD :: real
  P_TX :: real
  TX_duration :: real
  E_battery :: real
  SOC_min :: real
  SOC_max :: real
  SOC_init :: real
  fade_rate :: real
  self_discharge_per_day :: real

definition default_params :: params where
  "default_params =
     \<lparr> dt = 100, orbit_period = 95 * 60, num_orbits = 100,
       G_sun = 1361, A_panel = 0.1 * 0.1, packing_eff = 0.5,
       num_panels = [1, 2, 3, 4, 5, 6],
       eta_cell = 0.30, eta_mppt = 0.95, eta_wiring = 0.97,
       P_OBC = 0.5, P_ADCS = 0.8, P_COMMS = 0.7, P_PAYLOAD = 0.5,
       P_TX = 15, TX_duration = 15 * 60,
       E_battery = 10, SOC_min = 0.2, SOC_max = 0.99, SOC_init = 0.6,
       fade_rate = 0.20, self_discharge_per_day = 0.02 / 30 \<rparr>"

definition t_end :: "params \<Rightarrow> real" where
  "t_end P = num_orbits P * orbit_period P"

text \<open>\<open>np.arange(0, t_end, dt)\<close> has \<open>ceil(t_end / dt)\<close> elements (none when that is
  not positive), the element at index \<open>i\<close> being \<open>i * dt\<close>.\<close>

definition N_t :: "params \<Rightarrow> nat" where
  "N_t P = nat \<lceil>t_end P / dt P\<rceil>"

definition time :: "params \<Rightarrow> nat \<Rightarrow> real" where
  "time P i = real i * dt P"

definition N_p :: "params \<Rightarrow> nat" where
  "N_p P = length (num_panels P)"

definition A_total :: "params \<Rightarrow> nat \<Rightarrow> real" where
  "A_total P p = of_int (num_panels P ! p) * A_panel P * packing_eff P"

definition P_max :: "params \<Rightarrow> nat \<Rightarrow> real" where
  "P_max P p = G_sun P * A_total P p"

definition P_load_nominal :: "params \<Rightarrow> real" where
  "P_load_nominal P = P_OBC P + P_ADCS P + P_COMMS P + P_PAYLOAD P"

definition TX_theta_width :: "params \<Rightarrow> real" where
  "TX_theta_width P = 360 * TX_duration P / orbit_period P"

subsection \<open>Orbital angle (line 61)\<close>

text \<open>The remainder of numpy's \<open>%\<close> on floats has the sign of the divisor.\<close>

definition fmod :: "real \<Rightarrow> real \<Rightarrow> real" where
  "fmod x y = x - y * of_int \<lfloor>x / y\<rfloor>"

definition theta :: "params \<Rightarrow> nat \<Rightarrow> real" where
  "theta P t = 360 * fmod (time P t) (orbit_period P) / orbit_period P"

subsection \<open>State variables (lines 66 to 73)\<close>

text \<open>\<open>P_load\<close> is the module-level variable assigned inside the configuration loop and
  read after it; it is unbound until the first assignment.\<close>

record sim_state =
  SOC :: "real list list"
  P_solar_hist :: "real list list"
  P_load_hist :: "real list"
  P_load :: "real option"

datatype error = ZeroStep | ZeroDivisionError | IndexError | NameError

definition zeros2 :: "nat \<Rightarrow> nat \<Rightarrow> real list list" where
  "zeros2 n m = replicate n (replicate m 0)"

definition init_state :: "params \<Rightarrow> sim_state" where
  "init_state P =
     \<lparr> SOC = (zeros2 (N_t P) (N_p P))[0 := replicate (N_p P) (SOC_init P)],
       P_solar_hist = zeros2 (N_t P) (N_p P),
       P_load_hist = replicate (N_t P) 0,
       P_load = None \<rparr>"

subsection \<open>Geometry and battery fade, computed once per time step (lines 80 to 96)\<close>

definition radians :: "real \<Rightarrow> real" where
  "radians x = x * pi / 180"

definition eclipse_of :: "real \<Rightarrow> int" where
  "eclipse_of theta_i = (if 120 < theta_i \<and> theta_i < 270 then 0 else 1)"

definition f_theta_of :: "real \<Rightarrow> real" where
  "f_theta_of theta_i = max (0.6 + 0.4 * cos (radians (theta_i - 45))) 0"

definition mission_years :: "params \<Rightarrow> nat \<Rightarrow> real" where
  "mission_years P t = time P t / (3600 * 24) / 365"

definition E_batt_eff :: "params \<Rightarrow> real \<Rightarrow> real" where
  "E_batt_eff P years =
     max (E_battery P * (1 - fade_rate P * years)) (0.3 * E_battery P)"

subsection \<open>The body of the configuration loop (lines 98 to 143)\<close>

definition P_solar :: "params \<Rightarrow> nat \<Rightarrow> real \<Rightarrow> int \<Rightarrow> real" where
  "P_solar P p f_theta eclipse =
     P_max P p * eta_cell P * eta_mppt P * eta_wiring P * f_theta * of_int eclipse"

definition base_load :: "params \<Rightarrow> real \<Rightarrow> real" where
  "base_load P SOC_prev = (if SOC_prev < 0.30 then P_OBC P else P_load_nominal P)"

definition TX_on :: "params \<Rightarrow> real \<Rightarrow> int \<Rightarrow> real \<Rightarrow> real \<Rightarrow> bool" where
  "TX_on P theta_i eclipse E_eff SOC_prev =
     (let E_batt_available = SOC_prev * E_eff;
          E_TX = P_TX P * TX_duration P / 3600;
          E_load_TX = P_load_nominal P * TX_duration P / 3600;
          E_reserve = 0.30 * E_eff
      in eclipse = 1
         \<and> (0 \<le> theta_i \<and> theta_i \<le> TX_theta_width P)
         \<and> E_batt_available - E_load_TX > E_reserve + E_TX)"

definition load_power :: "params \<Rightarrow> real \<Rightarrow> int \<Rightarrow> real \<Rightarrow> real \<Rightarrow> real" where
  "load_power P theta_i eclipse E_eff SOC_prev =
     (if TX_on P theta_i eclipse E_eff SOC_prev
      then base_load P SOC_prev + P_TX P
      else base_load P SOC_prev)"

text \<open>\<open>np.clip(a, lo, hi)\<close> is \<open>minimum(hi, maximum(a, lo))\<close>, with no check that
  \<open>lo \<le> hi\<close>.\<close>

definition clip :: "real \<Rightarrow> real \<Rightarrow> real \<Rightarrow> real" where
  "clip a lo hi = min hi (max a lo)"

definition SOC_next :: "params \<Rightarrow> real \<Rightarrow> real \<Rightarrow> real \<Rightarrow> real \<Rightarrow> real" where
  "SOC_next P E_eff solar load SOC_prev =
     (let dE0 = (solar - load) * dt P / 3600;
          dE = (if dE0 > 0 then dE0 * 0.95 else dE0);
          SOC1 = SOC_prev + dE / E_eff;
          SOC2 = SOC1 * (1 - self_discharge_per_day P * dt P / (3600 * 24))
      in clip SOC2 (SOC_min P) (SOC_max P))"

definition panel_step ::
  "params \<Rightarrow> nat \<Rightarrow> real \<Rightarrow> int \<Rightarrow> real \<Rightarrow> real \<Rightarrow> nat \<Rightarrow> sim_state \<Rightarrow> sim_state" where
  "panel_step P t theta_i eclipse f_theta E_eff p s =
     (let solar = P_solar P p f_theta eclipse;
          SOC_prev = SOC s ! (t - 1) ! p;
          load = load_power P theta_i eclipse E_eff SOC_prev;
          SOC_new = SOC_next P E_eff solar load SOC_prev
      in s\<lparr> SOC := (SOC s)[t := (SOC s ! t)[p := SOC_new]],
            P_solar_hist := (P_solar_hist s)[t := (P_solar_hist s ! t)[p := solar]],
            P_load := Some load \<rparr>)"

subsection \<open>The main simulation loop (lines 78 to 145)\<close>

definition time_step :: "params \<Rightarrow> nat \<Rightarrow> sim_state \<Rightarrow> error + sim_state" where
  "time_step P t s =
     (let theta_i = theta P t;
          eclipse = eclipse_of theta_i;
          f_theta = f_theta_of theta_i;
          E_eff = E_batt_eff P (mission_years P t);
          s' = fold (panel_step P t theta_i eclipse f_theta E_eff) [0..<N_p P] s
      in case P_load s' of
           None \<Rightarrow> Inl NameError
         | Some load \<Rightarrow> Inr (s'\<lparr> P_load_hist := (P_load_hist s')[t := load] \<rparr>))"

fun main_loop :: "params \<Rightarrow> nat list \<Rightarrow> sim_state \<Rightarrow> error + sim_state" where
  "main_loop P [] s = Inr s"
| "main_loop P (t # ts) s =
     (case time_step P t s of Inl e \<Rightarrow> Inl e | Inr s' \<Rightarrow> main_loop P ts s')"

text \<open>The whole run, in the order of the script: \<open>np.arange\<close> refuses a zero step
  (line 12); the Python division \<open>360 * TX_duration / orbit_period\<close> raises
  ZeroDivisionError on a zero orbit period (line 45); \<open>SOC[0, :] = SOC_init\<close> raises
  IndexError on an empty time grid (line 70); then the loop runs over \<open>range(1, N_t)\<close>.
  The other divisions of the script are by literals or are numpy divisions, which do not
  raise.\<close>

definition simulate :: "params \<Rightarrow> error + sim_state" where
  "simulate P =
     (if dt P = 0 then Inl ZeroStep
      else if orbit_period P = 0 then Inl ZeroDivisionError
      else if N_t P = 0 then Inl IndexError
      else main_loop P [1..<N_t P] (init_state P))"

subsection \<open>The update rule in the words of the specification\<close>

text \<open>Saturating clamp with inclusive bounds, and the new state of charge as section 4.4
  of the specification gives it: net energy of the step, charge efficiency on a positive
  net energy only, division by the effective capacity, self-discharge, clamp.\<close>

definition clamp :: "real \<Rightarrow> real \<Rightarrow> real \<Rightarrow> real" where
  "clamp x lo hi = (if x < lo then lo else if hi < x then hi else x)"

definition SOC_new_spec :: "params \<Rightarrow> real \<Rightarrow> real \<Rightarrow> real \<Rightarrow> real \<Rightarrow> real" where
  "SOC_new_spec P capacity_eff solar_power load SOC_prev =
     (let dE = (solar_power - load) * dt P / 3600;
          dE' = (if dE > 0 then 0.95 * dE else dE)
      in clamp ((SOC_prev + dE' / capacity_eff)
                  * (1 - self_discharge_per_day P * dt P / 86400))
           (SOC_min P) (SOC_max P))"

subsection \<open>Reading the results\<close>

definition P_solar_hist_at :: "params \<Rightarrow> nat \<Rightarrow> nat \<Rightarrow> error + real" where
  "P_solar_hist_at P t p =
     (case simulate P of Inl e \<Rightarrow> Inl e | Inr out \<Rightarrow> Inr (P_solar_hist out ! t ! p))"

subsection \<open>Auxiliary notions for the proofs\<close>

text \<open>The shape of the three arrays, the values one time step computes for one
  configuration, and the invariant of the main loop: every row below \<open>k\<close> has been
  written from the row before it.\<close>

definition shape :: "params \<Rightarrow> sim_state \<Rightarrow> bool" where
  "shape P s \<longleftrightarrow>
     length (SOC s) = N_t P \<and> (\<forall>t < N_t P. length (SOC s ! t) = N_p P) \<and>
     length (P_solar_hist s) = N_t P \<and> (\<forall>t < N_t P. length (P_solar_hist s ! t) = N_p P) \<and>
     length (P_load_hist s) = N_t P"

definition step_solar :: "params \<Rightarrow> nat \<Rightarrow> nat \<Rightarrow> real" where
  "step_solar P t p = P_solar P p (f_theta_of (theta P t)) (eclipse_of (theta P t))"

definition step_load :: "params \<Rightarrow> nat \<Rightarrow> real \<Rightarrow> real" where
  "step_load P t x =
     load_power P (theta P t) (eclipse_of (theta P t)) (E_batt_eff P (mission_years P t)) x"

definition step_SOC :: "params \<Rightarrow> nat \<Rightarrow> nat \<Rightarrow> real \<Rightarrow> real" where
  "step_SOC P t p x =
     SOC_next P (E_batt_eff P (mission_years P t)) (step_solar P t p) (step_load P t x) x"

definition panel_body :: "params \<Rightarrow> nat \<Rightarrow> nat \<Rightarrow> sim_state \<Rightarrow> sim_state" where
  "panel_body P t =
     panel_step P t (theta P t) (eclipse_of (theta P t)) (f_theta_of (theta P t))
       (E_batt_eff P (mission_years P t))"

definition inner_post :: "params \<Rightarrow> nat \<Rightarrow> nat \<Rightarrow> sim_state \<Rightarrow> sim_state \<Rightarrow> bool" where
  "inner_post P t n s s' \<longleftrightarrow>
     shape P s' \<and>
     (\<forall>r. r \<noteq> t \<longrightarrow> SOC s' ! r = SOC s ! r \<and> P_solar_hist s' ! r = P_solar_hist s ! r) \<and>
     (\<forall>p < n. SOC s' ! t ! p = step_SOC P t p (SOC s ! (t - 1) ! p) \<and>
               P_solar_hist s' ! t ! p = step_solar P t p) \<and>
     P_load_hist s' = P_load_hist s \<and>
     P_load s' = (if n = 0 then P_load s else Some (step_load P t (SOC s ! (t - 1) ! (n - 1))))"

definition inv :: "params \<Rightarrow> nat \<Rightarrow> sim_state \<Rightarrow> bool" where
  "inv P k s \<longleftrightarrow>
     shape P s \<and>
     SOC s ! 0 = replicate (N_p P) (SOC_init P) \<and>
     P_solar_hist s ! 0 = replicate (N_p P) 0 \<and>
     P_load_hist s ! 0 = 0 \<and>
     (\<forall>t. 0 < t \<and> t < k \<longrightarrow>
        (\<forall>p < N_p P. SOC s ! t ! p = step_SOC P t p (SOC s ! (t - 1) ! p) \<and>
                     P_solar_hist s ! t ! p = step_solar P t p) \<and>
        (0 < N_p P \<longrightarrow> P_load_hist s ! t = step_load P t (SOC s ! (t - 1) ! (N_p P - 1))))"

section \<open>The loops\<close>

lemma Nt_default: "N_t default_params = 5700"
  by (simp add: N_t_def t_end_def default_params_def)

lemma shape_init: "shape P (init_state P)"
  by (auto simp: shape_def init_state_def zeros2_def nth_list_update)

lemma nth_update2:
  "xs[t := (xs ! t)[p := v]] ! r = (if r = t \<and> t < length xs then (xs ! t)[p := v] else xs ! r)"
  by (cases "t < length xs") (auto simp: nth_list_update list_update_beyond)

lemma length_nth_update2 [simp]:
  "length (xs[t := (xs ! t)[p := v]] ! r) = length (xs ! r)"
  by (simp add: nth_update2)

lemma panel_step_shape: "shape P s \<Longrightarrow> shape P (panel_step P t th ec f E p s)"
  by (simp add: shape_def panel_step_def Let_def)

lemma panel_body_shape: "shape P s \<Longrightarrow> shape P (panel_body P t p s)"
  by (simp add: panel_body_def panel_step_shape)

lemma inner_loop:
  assumes "shape P s" "0 < t" "t < N_t P" "n \<le> N_p P"
  shows "inner_post P t n s (fold (panel_body P t) [0..<n] s)"
  using assms(4)
proof (induction n)
  case 0
  then show ?case using assms(1) by (simp add: inner_post_def)
next
  case (Suc n)
  let ?s = "fold (panel_body P t) [0..<n] s"
  have IH: "inner_post P t n s ?s" using Suc by simp
  have n: "n < N_p P" using Suc.prems by simp
  have sh: "shape P ?s" using IH by (simp add: inner_post_def)
  have lt: "t < length (SOC ?s)" "t < length (P_solar_hist ?s)"
    using sh assms(3) by (simp_all add: shape_def)
  have ln: "n < length (SOC ?s ! t)" "n < length (P_solar_hist ?s ! t)"
    using sh assms(3) n by (simp_all add: shape_def)
  have prev: "SOC ?s ! (t - 1) = SOC s ! (t - 1)"
    using IH assms(2) by (simp add: inner_post_def)
  have fold_eq: "fold (panel_body P t) [0..<Suc n] s = panel_body P t n ?s" by simp
  show ?case
    unfolding fold_eq inner_post_def
  proof (intro conjI allI impI)
    show "shape P (panel_body P t n ?s)" using sh by (rule panel_body_shape)
  next
    fix r assume "r \<noteq> t"
    then show "SOC (panel_body P t n ?s) ! r = SOC s ! r"
      using IH by (simp add: panel_body_def panel_step_def Let_def inner_post_def nth_update2)
  next
    fix r assume "r \<noteq> t"
    then show "P_solar_hist (panel_body P t n ?s) ! r = P_solar_hist s ! r"
      using IH by (simp add: panel_body_def panel_step_def Let_def inner_post_def nth_update2)
  next
    fix p assume p: "p < Suc n"
    show "SOC (panel_body P t n ?s) ! t ! p = step_SOC P t p (SOC s ! (t - 1) ! p)"
    proof (cases "p = n")
      case True
      then show ?thesis using lt ln prev
        by (simp add: panel_body_def panel_step_def Let_def step_SOC_def step_solar_def
            step_load_def)
    next
      case False
      then have "p < n" using p by simp
      then show ?thesis using IH lt False
        by (simp add: panel_body_def panel_step_def Let_def inner_post_def)
    qed
  next
    fix p assume p: "p < Suc n"
    show "P_solar_hist (panel_body P t n ?s) ! t ! p = step_solar P t p"
    proof (cases "p = n")
      case True
      then show ?thesis using lt ln
        by (simp add: panel_body_def panel_step_def Let_def step_solar_def)
    next
      case False
      then have "p < n" using p by simp
      then show ?thesis using IH lt False
        by (simp add: panel_body_def panel_step_def Let_def inner_post_def)
    qed
  next
    show "P_load_hist (panel_body P t n ?s) = P_load_hist s"
      using IH by (simp add: panel_body_def panel_step_def Let_def inner_post_def)
  next
    show "P_load (panel_body P t n ?s) =
      (if Suc n = 0 then P_load s else Some (step_load P t (SOC s ! (t - 1) ! (Suc n - 1))))"
      using prev by (simp add: panel_body_def panel_step_def Let_def step_load_def)
  qed
qed

lemma inv_init: "0 < N_t P \<Longrightarrow> inv P 1 (init_state P)"
  by (simp add: inv_def shape_init) (simp add: init_state_def zeros2_def)

lemma time_step_alt:
  "time_step P t s =
     (case P_load (fold (panel_body P t) [0..<N_p P] s) of
        None \<Rightarrow> Inl NameError
      | Some load \<Rightarrow>
          Inr ((fold (panel_body P t) [0..<N_p P] s)
                 \<lparr> P_load_hist := (P_load_hist (fold (panel_body P t) [0..<N_p P] s))[t := load] \<rparr>))"
  unfolding time_step_def Let_def panel_body_def ..

lemma time_step_inv:
  assumes I: "inv P k s" and k: "0 < k" "k < N_t P" and ts: "time_step P k s = Inr s'"
  shows "inv P (Suc k) s'"
proof -
  let ?m = "fold (panel_body P k) [0..<N_p P] s"
  have sh: "shape P s" using I by (simp add: inv_def)
  have post: "inner_post P k (N_p P) s ?m" using sh k by (intro inner_loop) simp_all
  obtain load where ld: "P_load ?m = Some load"
    and s': "s' = ?m\<lparr> P_load_hist := (P_load_hist ?m)[k := load] \<rparr>"
    using ts by (auto simp: time_step_alt split: option.splits)
  have SOCr: "\<And>r. r \<noteq> k \<Longrightarrow> SOC s' ! r = SOC s ! r"
    and SOLr: "\<And>r. r \<noteq> k \<Longrightarrow> P_solar_hist s' ! r = P_solar_hist s ! r"
    using post s' by (simp_all add: inner_post_def)
  have row: "\<And>p. p < N_p P \<Longrightarrow> SOC s' ! k ! p = step_SOC P k p (SOC s ! (k - 1) ! p)
      \<and> P_solar_hist s' ! k ! p = step_solar P k p"
    using post s' by (simp add: inner_post_def)
  have hist: "P_load_hist s' = (P_load_hist s)[k := load]"
    using post s' by (simp add: inner_post_def)
  have lh: "k < length (P_load_hist s)" using sh k by (simp add: shape_def)
  have ldv: "0 < N_p P \<Longrightarrow> load = step_load P k (SOC s ! (k - 1) ! (N_p P - 1))"
    using post ld by (simp add: inner_post_def)
  have shs': "shape P s'" using post s' sh by (simp add: inner_post_def shape_def)
  show ?thesis
    unfolding inv_def
  proof (intro conjI allI impI)
    show "shape P s'" by (rule shs')
    show "SOC s' ! 0 = replicate (N_p P) (SOC_init P)"
      using I k SOCr[of 0] by (simp add: inv_def)
    show "P_solar_hist s' ! 0 = replicate (N_p P) 0"
      using I k SOLr[of 0] by (simp add: inv_def)
    show "P_load_hist s' ! 0 = 0"
      using I k hist by (simp add: inv_def)
  next
    fix t p assume t: "0 < t \<and> t < Suc k" and p: "p < N_p P"
    show "SOC s' ! t ! p = step_SOC P t p (SOC s' ! (t - 1) ! p)"
    proof (cases "t = k")
      case True
      then show ?thesis using row[OF p] SOCr[of "k - 1"] k by simp
    next
      case False
      then have tk: "t < k" using t by simp
      then have "SOC s ! t ! p = step_SOC P t p (SOC s ! (t - 1) ! p)"
        using I t p by (simp add: inv_def)
      then show ?thesis using SOCr[of t] SOCr[of "t - 1"] tk False by simp
    qed
    show "P_solar_hist s' ! t ! p = step_solar P t p"
    proof (cases "t = k")
      case True
      then show ?thesis using row[OF p] by simp
    next
      case False
      then have tk: "t < k" using t by simp
      then have "P_solar_hist s ! t ! p = step_solar P t p"
        using I t p by (simp add: inv_def)
      then show ?thesis using SOLr[of t] False by simp
    qed
  next
    fix t assume t: "0 < t \<and> t < Suc k" and np: "0 < N_p P"
    show "P_load_hist s' ! t = step_load P t (SOC s' ! (t - 1) ! (N_p P - 1))"
    proof (cases "t = k")
      case True
      then show ?thesis using hist lh ldv[OF np] SOCr[of "k - 1"] k by simp
    next
      case False
      then have tk: "t < k" using t by simp
      then have "P_load_hist s ! t = step_load P t (SOC s ! (t - 1) ! (N_p P - 1))"
        using I t np by (simp add: inv_def)
      then show ?thesis using hist SOCr[of "t - 1"] tk False by simp
    qed
  qed
qed

lemma time_step_runs:
  assumes "shape P s" "0 < k" "k < N_t P" "0 < N_p P"
  shows "\<exists>s'. time_step P k s = Inr s'"
proof -
  have "inner_post P k (N_p P) s (fold (panel_body P k) [0..<N_p P] s)"
    using assms by (intro inner_loop) simp_all
  then have "P_load (fold (panel_body P k) [0..<N_p P] s) \<noteq> None"
    using assms(4) by (simp add: inner_post_def)
  then show ?thesis by (auto simp: time_step_alt split: option.splits)
qed

lemma main_loop_inv:
  "inv P k s \<Longrightarrow> 0 < k \<Longrightarrow> k \<le> n \<Longrightarrow> n \<le> N_t P \<Longrightarrow> main_loop P [k..<n] s = Inr s'
     \<Longrightarrow> inv P n s'"
proof (induction "n - k" arbitrary: k s)
  case 0
  then show ?case by simp
next
  case (Suc d)
  then have kn: "k < n" by simp
  then have upt: "[k..<n] = k # [Suc k..<n]" by (simp add: upt_conv_Cons)
  obtain s1 where s1: "time_step P k s = Inr s1" and rest: "main_loop P [Suc k..<n] s1 = Inr s'"
    using Suc.prems(5) unfolding upt by (auto split: sum.splits)
  have "inv P (Suc k) s1" using Suc.prems kn s1 by (intro time_step_inv[of P k s]) simp_all
  moreover have "d = n - Suc k" using Suc.hyps(2) by simp
  ultimately show ?case using Suc.hyps(1)[of "Suc k" s1] kn Suc.prems(4) rest by simp
qed

lemma main_loop_runs:
  "inv P k s \<Longrightarrow> 0 < k \<Longrightarrow> k \<le> n \<Longrightarrow> n \<le> N_t P \<Longrightarrow> 0 < N_p P
     \<Longrightarrow> \<exists>s'. main_loop P [k..<n] s = Inr s'"
proof (induction "n - k" arbitrary: k s)
  case 0
  then show ?case by simp
next
  case (Suc d)
  then have kn: "k < n" by simp
  then have upt: "[k..<n] = k # [Suc k..<n]" by (simp add: upt_conv_Cons)
  have "shape P s" using Suc.prems(1) by (simp add: inv_def)
  then obtain s1 where s1: "time_step P k s = Inr s1"
    using time_step_runs[of P s k] Suc.prems kn by auto
  have "inv P (Suc k) s1" using Suc.prems kn s1 by (intro time_step_inv[of P k s]) simp_all
  moreover have "d = n - Suc k" using Suc.hyps(2) by simp
  ultimately obtain s' where "main_loop P [Suc k..<n] s1 = Inr s'"
    using Suc.hyps(1)[of "Suc k" s1] kn Suc.prems(4,5) by auto
  then show ?case unfolding upt using s1 by simp
qed

lemma simulate_inv: "simulate P = Inr out \<Longrightarrow> inv P (N_t P) out"
  using main_loop_inv[of P 1 "init_state P" "N_t P" out] inv_init[of P]
  by (auto simp: simulate_def split: if_splits)

lemma simulate_runs:
  "dt P \<noteq> 0 \<Longrightarrow> orbit_period P \<noteq> 0 \<Longrightarrow> 0 < N_t P \<Longrightarrow> 0 < N_p P
     \<Longrightarrow> \<exists>out. simulate P = Inr out"
  using main_loop_runs[of P 1 "init_state P" "N_t P"] inv_init[of P]
  by (auto simp: simulate_def)

section \<open>The state of charge stays within its bounds\<close>

lemma clip_bounds: "lo \<le> hi \<Longrightarrow> lo \<le> clip a lo hi \<and> clip a lo hi \<le> hi"
  by (simp add: clip_def)

lemma SOC_next_bounds:
  "SOC_min P \<le> SOC_max P \<Longrightarrow>
     SOC_min P \<le> SOC_next P E solar load x \<and> SOC_next P E solar load x \<le> SOC_max P"
  by (simp add: SOC_next_def Let_def clip_bounds)

lemma inv_SOC_bounds:
  assumes "inv P k s" "SOC_min P \<le> SOC_init P" "SOC_init P \<le> SOC_max P"
    and "t < k" "p < N_p P"
  shows "SOC_min P \<le> SOC s ! t ! p \<and> SOC s ! t ! p \<le> SOC_max P"
proof (cases "t = 0")
  case True
  then show ?thesis using assms by (simp add: inv_def)
next
  case False
  then have "SOC s ! t ! p = step_SOC P t p (SOC s ! (t - 1) ! p)"
    using assms by (simp add: inv_def)
  moreover have "SOC_min P \<le> SOC_max P" using assms(2,3) by simp
  ultimately show ?thesis by (simp add: step_SOC_def SOC_next_bounds)
qed

text \<open>
  Claim C1. Provided the initial state of charge lies between \<open>SOC_min\<close> and \<open>SOC_max\<close>,
  every stored state of charge, at every index of the time grid and for every panel
  configuration, lies between \<open>SOC_min\<close> and \<open>SOC_max\<close> (both bounds included); and the
  value one update writes lies between them whatever the previous value, the capacity, the
  solar power and the load are.
\<close>

theorem SOC_clamp_invariant:
  assumes "SOC_min P \<le> SOC_init P" and "SOC_init P \<le> SOC_max P"
    and "simulate P = Inr out" and "t < N_t P" and "c < N_p P"
  shows "SOC_min P \<le> SOC out ! t ! c \<and> SOC out ! t ! c \<le> SOC_max P \<and>
         (\<forall>E solar load x. SOC_min P \<le> SOC_next P E solar load x \<and>
                           SOC_next P E solar load x \<le> SOC_max P)"
proof -
  have "SOC_min P \<le> SOC_max P" using assms(1,2) by simp
  then show ?thesis
    using inv_SOC_bounds[OF simulate_inv[OF assms(3)] assms(1,2,4,5)]
    by (simp add: SOC_next_bounds)
qed

lemma default_runs: "\<exists>out. simulate default_params = Inr out"
  by (rule simulate_runs) (simp_all add: Nt_default, simp_all add: default_params_def N_p_def)

theorem SOC_clamp_invariant_witness:
  "SOC_min default_params \<le> SOC_init default_params \<and>
   SOC_init default_params \<le> SOC_max default_params \<and>
   (\<exists>out. simulate default_params = Inr out \<and>
      SOC_min default_params \<le> SOC out ! 5699 ! 3 \<and>
      SOC out ! 5699 ! 3 \<le> SOC_max default_params)"
proof -
  obtain out where out: "simulate default_params = Inr out" using default_runs by blast
  have h1: "SOC_min default_params \<le> SOC_init default_params"
    and h2: "SOC_init default_params \<le> SOC_max default_params"
    by (simp_all add: default_params_def)
  have h3: "5699 < N_t default_params" by (simp add: Nt_default)
  have h4: "3 < N_p default_params" by (simp add: N_p_def default_params_def)
  show ?thesis
    using SOC_clamp_invariant[OF h1 h2 out h3 h4] out h1 h2 by blast
qed

section \<open>The update of the state of charge\<close>

lemma clip_clamp: "lo \<le> hi \<Longrightarrow> clip a lo hi = clamp a lo hi"
  by (simp add: clip_def clamp_def min_def max_def)

lemma SOC_next_spec:
  "SOC_min P \<le> SOC_max P \<Longrightarrow> SOC_next P E solar load x = SOC_new_spec P E solar load x"
  by (simp add: SOC_next_def SOC_new_spec_def Let_def clip_clamp mult.commute)

lemma inv_row:
  assumes "inv P k s" "0 < t" "t < k" "p < N_p P"
  shows "SOC s ! t ! p = step_SOC P t p (SOC s ! (t - 1) ! p)"
    and "P_solar_hist s ! t ! p = step_solar P t p"
  using assms by (simp_all add: inv_def)

text \<open>
  Claim C2. At every simulated step \<open>t \<ge> 1\<close> and for every configuration \<open>c\<close>, the stored
  state of charge is the update rule of the specification applied to the previous one:
  the net energy \<open>(solar - load) * dt / 3600\<close>, scaled by 0.95 when it is positive, divided
  by the effective capacity and added; the sum multiplied by the self-discharge factor
  \<open>1 - self_discharge_per_day * dt / 86400\<close> whatever the sign of the net energy; the product
  clamped to \<open>[SOC_min, SOC_max]\<close>. The solar power is the one stored for \<open>(t, c)\<close>, the
  load the one computed for \<open>(t, c)\<close>.
\<close>

theorem SOC_update_rule:
  assumes "simulate P = Inr out" and "1 \<le> t" and "t < N_t P" and "c < N_p P"
    and "SOC_min P \<le> SOC_max P"
  shows "SOC out ! t ! c =
           SOC_new_spec P (E_batt_eff P (mission_years P t)) (P_solar_hist out ! t ! c)
             (load_power P (theta P t) (eclipse_of (theta P t))
                (E_batt_eff P (mission_years P t)) (SOC out ! (t - 1) ! c))
             (SOC out ! (t - 1) ! c)"
proof -
  have I: "inv P (N_t P) out" using assms(1) by (rule simulate_inv)
  have t: "0 < t" using assms(2) by simp
  show ?thesis
    using inv_row[OF I t assms(3,4)] assms(5)
    by (simp add: step_SOC_def step_load_def SOC_next_spec)
qed

theorem SOC_update_rule_witness:
  "SOC_min default_params \<le> SOC_max default_params \<and>
   (\<exists>out. simulate default_params = Inr out \<and>
      SOC out ! 1 ! 3 =
        SOC_new_spec default_params (E_batt_eff default_params (mission_years default_params 1))
          (P_solar_hist out ! 1 ! 3)
          (load_power default_params (theta default_params 1)
             (eclipse_of (theta default_params 1))
             (E_batt_eff default_params (mission_years default_params 1)) (SOC out ! 0 ! 3))
          (SOC out ! 0 ! 3))"
proof -
  obtain out where out: "simulate default_params = Inr out" using default_runs by blast
  have h2: "(1::nat) \<le> 1" by simp
  have h3: "1 < N_t default_params" by (simp add: Nt_default)
  have h4: "3 < N_p default_params" by (simp add: N_p_def default_params_def)
  have h5: "SOC_min default_params \<le> SOC_max default_params"
    by (simp add: default_params_def)
  show ?thesis
    using SOC_update_rule[OF out h2 h3 h4 h5] out h5 by auto
qed

section \<open>Solar power and eclipse\<close>

lemma eclipse_of_cases:
  "(eclipse_of th = 0 \<longleftrightarrow> 120 < th \<and> th < 270) \<and>
   (eclipse_of th = 1 \<longleftrightarrow> \<not> (120 < th \<and> th < 270))"
  by (simp add: eclipse_of_def)

lemma f_theta_nonneg: "0 \<le> f_theta_of th"
  by (simp add: f_theta_of_def)

lemma eclipse_nonneg: "0 \<le> eclipse_of th"
  by (simp add: eclipse_of_def)

lemma step_solar_nonneg:
  assumes "0 \<le> G_sun P" "0 \<le> of_int (num_panels P ! c) * A_panel P * packing_eff P"
    "0 \<le> eta_cell P" "0 \<le> eta_mppt P" "0 \<le> eta_wiring P"
  shows "0 \<le> step_solar P t c"
proof -
  have "0 \<le> P_max P c" using assms(1,2) by (simp add: P_max_def A_total_def)
  then have "0 \<le> P_max P c * eta_cell P * eta_mppt P * eta_wiring P"
    using assms(3,4,5) by simp
  then have "0 \<le> P_max P c * eta_cell P * eta_mppt P * eta_wiring P * f_theta_of (theta P t)"
    using f_theta_nonneg[of "theta P t"] by (rule mult_nonneg_nonneg)
  moreover have "(0::real) \<le> of_int (eclipse_of (theta P t))"
    using eclipse_nonneg[of "theta P t"] by simp
  ultimately show ?thesis
    unfolding step_solar_def P_solar_def by (rule mult_nonneg_nonneg)
qed

text \<open>
  Claim C3. At every simulated step \<open>t \<ge> 1\<close> and for every configuration \<open>c\<close>, the stored
  solar power is the product of the solar constant, the total panel area, the three
  efficiencies, the projection factor and the eclipse flag; the flag is 0 exactly when the
  orbital angle lies strictly between 120 and 270 and 1 otherwise; so the solar power is 0
  in that interval, and it is never negative when the solar constant, the panel area and
  the efficiencies are not.
\<close>

theorem solar_power_formula:
  assumes "simulate P = Inr out" and "1 \<le> t" and "t < N_t P" and "c < N_p P"
  shows "P_solar_hist out ! t ! c =
           G_sun P * (of_int (num_panels P ! c) * A_panel P * packing_eff P)
             * eta_cell P * eta_mppt P * eta_wiring P
             * max 0 (0.6 + 0.4 * cos ((theta P t - 45) * pi / 180))
             * of_int (eclipse_of (theta P t)) \<and>
         (eclipse_of (theta P t) = 0 \<longleftrightarrow> 120 < theta P t \<and> theta P t < 270) \<and>
         (eclipse_of (theta P t) = 1 \<longleftrightarrow> \<not> (120 < theta P t \<and> theta P t < 270)) \<and>
         (120 < theta P t \<and> theta P t < 270 \<longrightarrow> P_solar_hist out ! t ! c = 0) \<and>
         (0 \<le> G_sun P \<and> 0 \<le> of_int (num_panels P ! c) * A_panel P * packing_eff P \<and>
          0 \<le> eta_cell P \<and> 0 \<le> eta_mppt P \<and> 0 \<le> eta_wiring P
            \<longrightarrow> 0 \<le> P_solar_hist out ! t ! c)"
proof -
  have I: "inv P (N_t P) out" using assms(1) by (rule simulate_inv)
  have t: "0 < t" using assms(2) by simp
  have eq: "P_solar_hist out ! t ! c = step_solar P t c"
    using inv_row(2)[OF I t assms(3,4)] .
  have formula: "step_solar P t c =
           G_sun P * (of_int (num_panels P ! c) * A_panel P * packing_eff P)
             * eta_cell P * eta_mppt P * eta_wiring P
             * max 0 (0.6 + 0.4 * cos ((theta P t - 45) * pi / 180))
             * of_int (eclipse_of (theta P t))"
    by (simp add: step_solar_def P_solar_def P_max_def A_total_def f_theta_of_def radians_def
        max.commute)
  have zero: "120 < theta P t \<and> theta P t < 270 \<longrightarrow> step_solar P t c = 0"
    by (simp add: step_solar_def P_solar_def eclipse_of_def)
  show ?thesis
    unfolding eq using formula zero eclipse_of_cases[of "theta P t"] step_solar_nonneg[of P c t]
    by blast
qed

lemma theta_default_20: "theta default_params 20 = 2400 / 19"
  by (simp add: theta_def fmod_def time_def default_params_def)

theorem solar_power_formula_witness:
  "120 < theta default_params 20 \<and> theta default_params 20 < 270 \<and>
   (\<exists>out. simulate default_params = Inr out \<and> P_solar_hist out ! 20 ! 3 = 0 \<and>
      0 \<le> P_solar_hist out ! 1 ! 3)"
proof -
  obtain out where out: "simulate default_params = Inr out" using default_runs by blast
  have h3: "20 < N_t default_params" "1 < N_t default_params" by (simp_all add: Nt_default)
  have h4: "3 < N_p default_params" by (simp add: N_p_def default_params_def)
  have th: "120 < theta default_params 20 \<and> theta default_params 20 < 270"
    by (simp add: theta_default_20)
  have pos: "0 \<le> G_sun default_params \<and>
      0 \<le> of_int (num_panels default_params ! 3) * A_panel default_params
            * packing_eff default_params \<and>
      0 \<le> eta_cell default_params \<and> 0 \<le> eta_mppt default_params \<and>
      0 \<le> eta_wiring default_params"
    by (simp add: default_params_def)
  have "P_solar_hist out ! 20 ! 3 = 0"
    using solar_power_formula[OF out _ h3(1) h4] th by simp
  moreover have "0 \<le> P_solar_hist out ! 1 ! 3"
    using solar_power_formula[OF out _ h3(2) h4] pos by simp
  ultimately show ?thesis using out th by blast
qed

section \<open>The load-power series\<close>

text \<open>
  Claim C7. The load-power output has one entry per time step, while the state of charge
  and the solar power have one entry per time step and configuration; at every step
  \<open>t \<ge> 1\<close> the load entry is the load computed for the last configuration of the list.
\<close>

theorem load_history_last_configuration:
  assumes "simulate P = Inr out"
  shows "length (P_load_hist out) = N_t P \<and>
         length (SOC out) = N_t P \<and> length (P_solar_hist out) = N_t P \<and>
         (\<forall>t < N_t P. length (SOC out ! t) = N_p P \<and> length (P_solar_hist out ! t) = N_p P) \<and>
         (\<forall>t. 1 \<le> t \<and> t < N_t P \<and> 0 < N_p P \<longrightarrow>
            P_load_hist out ! t =
              load_power P (theta P t) (eclipse_of (theta P t))
                (E_batt_eff P (mission_years P t)) (SOC out ! (t - 1) ! (N_p P - 1)))"
proof -
  have I: "inv P (N_t P) out" using assms(1) by (rule simulate_inv)
  then have sh: "shape P out" by (simp add: inv_def)
  have "\<forall>t. 1 \<le> t \<and> t < N_t P \<and> 0 < N_p P \<longrightarrow>
            P_load_hist out ! t = step_load P t (SOC out ! (t - 1) ! (N_p P - 1))"
    using I by (simp add: inv_def)
  then show ?thesis using sh by (simp add: shape_def step_load_def)
qed

theorem load_history_last_configuration_witness:
  "\<exists>out. simulate default_params = Inr out \<and> length (P_load_hist out) = 5700 \<and>
     length (SOC out ! 1) = 6 \<and>
     P_load_hist out ! 1 =
       load_power default_params (theta default_params 1) (eclipse_of (theta default_params 1))
         (E_batt_eff default_params (mission_years default_params 1)) (SOC out ! 0 ! 5)"
proof -
  obtain out where out: "simulate default_params = Inr out" using default_runs by blast
  have np: "N_p default_params = 6" by (simp add: N_p_def default_params_def)
  show ?thesis
    using load_history_last_configuration[OF out] out by (simp add: Nt_default np)
qed

section \<open>Load selection\<close>

text \<open>
  Claim C4. At every simulated step \<open>t \<ge> 1\<close> and for every configuration \<open>c\<close>, the
  transmission power is added to the baseline load if and only if the eclipse flag is 1,
  the orbital angle lies in \<open>[0, 360 * TX_duration / orbit_period]\<close>, and the energy
  available at the previous state of charge minus the nominal-load energy over the
  transmission strictly exceeds 30 percent of the effective capacity plus the energy of the
  transmission. The load so obtained is the one the update of the state of charge uses,
  and for the last configuration the one written to the load series.
\<close>

theorem transmission_condition:
  assumes "simulate P = Inr out" and "1 \<le> t" and "t < N_t P" and "c < N_p P"
  shows "let E = E_batt_eff P (mission_years P t);
             prev = SOC out ! (t - 1) ! c;
             cond = (eclipse_of (theta P t) = 1 \<and>
                     (0 \<le> theta P t \<and> theta P t \<le> 360 * TX_duration P / orbit_period P) \<and>
                     prev * E - (P_OBC P + P_ADCS P + P_COMMS P + P_PAYLOAD P) * TX_duration P / 3600
                       > 0.30 * E + P_TX P * TX_duration P / 3600);
             load = (if cond then base_load P prev + P_TX P else base_load P prev)
         in (TX_on P (theta P t) (eclipse_of (theta P t)) E prev \<longleftrightarrow> cond) \<and>
            SOC out ! t ! c = SOC_next P E (P_solar_hist out ! t ! c) load prev \<and>
            (c = N_p P - 1 \<longrightarrow> P_load_hist out ! t = load)"
proof -
  have I: "inv P (N_t P) out" using assms(1) by (rule simulate_inv)
  have t: "0 < t" using assms(2) by simp
  have hist: "c = N_p P - 1 \<Longrightarrow>
      P_load_hist out ! t = step_load P t (SOC out ! (t - 1) ! c)"
    using I t assms(3,4) by (simp add: inv_def)
  show ?thesis
    using inv_row[OF I t assms(3,4)] hist
    by (simp add: Let_def step_SOC_def step_load_def load_power_def TX_on_def
        P_load_nominal_def TX_theta_width_def)
qed

theorem transmission_condition_witness:
  "\<exists>out. simulate default_params = Inr out \<and>
     (TX_on default_params (theta default_params 20) (eclipse_of (theta default_params 20))
        (E_batt_eff default_params (mission_years default_params 20)) (SOC out ! 19 ! 3)
      \<longleftrightarrow> False)"
proof -
  obtain out where out: "simulate default_params = Inr out" using default_runs by blast
  have h2: "(1::nat) \<le> 20" by simp
  have h3: "20 < N_t default_params" by (simp add: Nt_default)
  have h4: "3 < N_p default_params" by (simp add: N_p_def default_params_def)
  have ec: "eclipse_of (theta default_params 20) = 0"
    by (simp add: theta_default_20 eclipse_of_def)
  show ?thesis
    using transmission_condition[OF out h2 h3 h4] out ec by (auto simp: Let_def)
qed

text \<open>
  Claim C5. At every simulated step \<open>t \<ge> 1\<close> and for every configuration \<open>c\<close>, the baseline
  load is the OBC power when the previous state of charge is strictly below 0.30 and the
  sum of the four subsystem loads otherwise. With the script's values a previous state of
  charge of 0.25 gives 0.5 W, one of exactly 0.30 gives the nominal 2.5 W, and the baseline
  is the OBC power exactly for previous values strictly below 0.30.
\<close>

theorem safe_mode_baseline:
  assumes "simulate P = Inr out" and "1 \<le> t" and "t < N_t P" and "c < N_p P"
  shows "let E = E_batt_eff P (mission_years P t);
             prev = SOC out ! (t - 1) ! c;
             b = (if prev < 0.30 then P_OBC P
                  else P_OBC P + P_ADCS P + P_COMMS P + P_PAYLOAD P)
         in base_load P prev = b \<and>
            SOC out ! t ! c =
              SOC_next P E (P_solar_hist out ! t ! c)
                (if TX_on P (theta P t) (eclipse_of (theta P t)) E prev then b + P_TX P else b)
                prev \<and>
            (b = P_OBC P \<longleftrightarrow> prev < 0.30 \<or> P_ADCS P + P_COMMS P + P_PAYLOAD P = 0) \<and>
            base_load default_params 0.25 = 0.5 \<and>
            base_load default_params 0.30 = 2.5 \<and>
            (\<forall>x. base_load default_params x = P_OBC default_params \<longleftrightarrow> x < 0.30)"
proof -
  have I: "inv P (N_t P) out" using assms(1) by (rule simulate_inv)
  have t: "0 < t" using assms(2) by simp
  have d1: "base_load default_params 0.25 = 0.5" "base_load default_params 0.30 = 2.5"
    by (simp_all add: base_load_def P_load_nominal_def default_params_def)
  have d2: "\<forall>x. base_load default_params x = P_OBC default_params \<longleftrightarrow> x < 0.30"
    by (simp add: base_load_def P_load_nominal_def default_params_def)
  show ?thesis
    using inv_row[OF I t assms(3,4)] d1 d2
    by (simp add: Let_def step_SOC_def step_load_def load_power_def base_load_def
        P_load_nominal_def add.assoc)
qed

theorem safe_mode_baseline_witness:
  "\<exists>out. simulate default_params = Inr out \<and>
     base_load default_params (SOC out ! 0 ! 3) =
       (if SOC out ! 0 ! 3 < 0.30 then P_OBC default_params
        else P_OBC default_params + P_ADCS default_params + P_COMMS default_params
               + P_PAYLOAD default_params)"
proof -
  obtain out where out: "simulate default_params = Inr out" using default_runs by blast
  have h2: "(1::nat) \<le> 1" by simp
  have h3: "1 < N_t default_params" by (simp add: Nt_default)
  have h4: "3 < N_p default_params" by (simp add: N_p_def default_params_def)
  show ?thesis
    using safe_mode_baseline[OF out h2 h3 h4] out by (auto simp: Let_def)
qed

section \<open>Capacity fade\<close>

text \<open>
  Claim C8. The effective capacity is the larger of the linearly faded nominal capacity
  and 30 percent of the nominal capacity; for a non-negative capacity and fade rate it
  does not increase with mission time (in particular from year 0 to year 1, and from one
  time index to a later one), and it is never below 30 percent of the nominal capacity.
  It is the capacity the update of the state of charge at step \<open>t\<close> divides by, at the
  mission time \<open>t * dt\<close> seconds expressed in years of 365 days.
\<close>

theorem capacity_fade:
  assumes "0 \<le> E_battery P" and "0 \<le> fade_rate P"
  shows "E_batt_eff P y = max (E_battery P * (1 - fade_rate P * y)) (0.3 * E_battery P) \<and>
         (y1 \<le> y2 \<longrightarrow> E_batt_eff P y2 \<le> E_batt_eff P y1) \<and>
         E_batt_eff P 1 \<le> E_batt_eff P 0 \<and>
         0.3 * E_battery P \<le> E_batt_eff P y \<and>
         (t1 \<le> t2 \<and> 0 \<le> dt P \<longrightarrow>
            E_batt_eff P (mission_years P t2) \<le> E_batt_eff P (mission_years P t1)) \<and>
         (simulate P = Inr out \<and> 1 \<le> t \<and> t < N_t P \<and> c < N_p P \<longrightarrow>
            (let E = max (E_battery P
                          * (1 - fade_rate P * (real t * dt P / (3600 * 24) / 365)))
                       (0.3 * E_battery P)
             in SOC out ! t ! c =
                  SOC_next P E (P_solar_hist out ! t ! c)
                    (load_power P (theta P t) (eclipse_of (theta P t)) E
                       (SOC out ! (t - 1) ! c))
                    (SOC out ! (t - 1) ! c)))"
proof -
  have used: "SOC out ! t ! c =
      SOC_next P (E_batt_eff P (mission_years P t)) (P_solar_hist out ! t ! c)
        (load_power P (theta P t) (eclipse_of (theta P t)) (E_batt_eff P (mission_years P t))
           (SOC out ! (t - 1) ! c))
        (SOC out ! (t - 1) ! c)"
    if "simulate P = Inr out" "1 \<le> t" "t < N_t P" "c < N_p P"
  proof -
    have t: "0 < t" using that(2) by simp
    show ?thesis
      using inv_row[OF simulate_inv[OF that(1)] t that(3,4)]
      by (simp add: step_SOC_def step_load_def)
  qed
  have E: "E_batt_eff P (mission_years P t) =
      max (E_battery P * (1 - fade_rate P * (real t * dt P / (3600 * 24) / 365)))
        (0.3 * E_battery P)"
    by (simp add: E_batt_eff_def mission_years_def time_def)
  have mono: "E_batt_eff P b \<le> E_batt_eff P a" if "a \<le> b" for a b
  proof -
    have "fade_rate P * a \<le> fade_rate P * b" using that assms(2) by (rule mult_left_mono)
    then have "E_battery P * (1 - fade_rate P * b) \<le> E_battery P * (1 - fade_rate P * a)"
      using assms(1) by (intro mult_left_mono) simp_all
    then show ?thesis unfolding E_batt_eff_def by (rule max.mono) simp
  qed
  have yrs: "mission_years P t1 \<le> mission_years P t2" if "t1 \<le> t2" "0 \<le> dt P"
  proof -
    have "real t1 * dt P \<le> real t2 * dt P" using that by (intro mult_right_mono) simp_all
    then show ?thesis by (simp add: mission_years_def time_def divide_right_mono)
  qed
  have step: "simulate P = Inr out \<and> 1 \<le> t \<and> t < N_t P \<and> c < N_p P \<longrightarrow>
            (let E = max (E_battery P
                          * (1 - fade_rate P * (real t * dt P / (3600 * 24) / 365)))
                       (0.3 * E_battery P)
             in SOC out ! t ! c =
                  SOC_next P E (P_solar_hist out ! t ! c)
                    (load_power P (theta P t) (eclipse_of (theta P t)) E
                       (SOC out ! (t - 1) ! c))
                    (SOC out ! (t - 1) ! c))"
    unfolding Let_def E[symmetric] using used by blast
  have rest: "E_batt_eff P y = max (E_battery P * (1 - fade_rate P * y)) (0.3 * E_battery P) \<and>
         (y1 \<le> y2 \<longrightarrow> E_batt_eff P y2 \<le> E_batt_eff P y1) \<and>
         E_batt_eff P 1 \<le> E_batt_eff P 0 \<and>
         0.3 * E_battery P \<le> E_batt_eff P y \<and>
         (t1 \<le> t2 \<and> 0 \<le> dt P \<longrightarrow>
            E_batt_eff P (mission_years P t2) \<le> E_batt_eff P (mission_years P t1))"
    using mono[of y1 y2] mono[of 0 1] mono[OF yrs] by (simp add: E_batt_eff_def)
  show ?thesis using rest step by blast
qed

theorem capacity_fade_witness:
  "0 \<le> E_battery default_params \<and> 0 \<le> fade_rate default_params \<and>
   E_batt_eff default_params 1 = 8 \<and> E_batt_eff default_params 0 = 10 \<and>
   E_batt_eff default_params 1 \<le> E_batt_eff default_params 0 \<and>
   E_batt_eff default_params 4 = 3"
proof -
  have h1: "0 \<le> E_battery default_params" and h2: "0 \<le> fade_rate default_params"
    by (simp_all add: default_params_def)
  show ?thesis
    using capacity_fade[OF h1 h2, of 1 0 1 0 0] h1 h2
    by (simp add: default_params_def E_batt_eff_def)
qed

section \<open>No charging in eclipse\<close>

lemma E_batt_eff_pos: "0 < E_battery P \<Longrightarrow> 0 < E_batt_eff P y"
  by (simp add: E_batt_eff_def less_max_iff_disj)

lemma load_power_eclipse:
  "120 < th \<Longrightarrow> th < 270 \<Longrightarrow> load_power P th (eclipse_of th) E x = base_load P x"
  by (simp add: load_power_def TX_on_def eclipse_of_def)

lemma base_load_nonneg:
  "0 \<le> P_OBC P \<Longrightarrow> 0 \<le> P_OBC P + P_ADCS P + P_COMMS P + P_PAYLOAD P \<Longrightarrow> 0 \<le> base_load P x"
  by (simp add: base_load_def P_load_nominal_def)

lemma SOC_next_no_solar_le:
  assumes load: "0 \<le> load" and dt: "0 \<le> dt P" and E: "0 < E"
    and k0: "0 \<le> self_discharge_per_day P * dt P" and k1: "self_discharge_per_day P * dt P \<le> 86400"
    and lo: "SOC_min P \<le> x" and x0: "0 \<le> x"
  shows "SOC_next P E 0 load x \<le> x"
proof -
  define dE0 where "dE0 = (0 - load) * dt P / 3600"
  define k where "k = 1 - self_discharge_per_day P * dt P / (3600 * 24)"
  define y where "y = x + dE0 / E"
  have dE0: "dE0 \<le> 0" using load dt by (simp add: dE0_def mult_nonneg_nonneg)
  then have "dE0 / E \<le> 0" using E by (simp add: divide_le_0_iff)
  then have yx: "y \<le> x" by (simp add: y_def)
  have k: "0 \<le> k" "k \<le> 1" using k0 k1 by (simp_all add: k_def)
  have yk: "y * k \<le> x"
  proof (cases "0 \<le> y")
    case True
    then have "y * k \<le> y * 1" using k(2) by (intro mult_left_mono) simp_all
    then show ?thesis using yx by simp
  next
    case False
    then have "y * k \<le> 0" using k(1) by (simp add: mult_le_0_iff)
    then show ?thesis using x0 by simp
  qed
  have "SOC_next P E 0 load x = clip (y * k) (SOC_min P) (SOC_max P)"
    using dE0 by (simp add: SOC_next_def Let_def dE0_def k_def y_def)
  also have "\<dots> \<le> max (y * k) (SOC_min P)" by (simp add: clip_def)
  also have "\<dots> \<le> x" using yk lo by simp
  finally show ?thesis .
qed

text \<open>
  Claim C10. At a simulated step \<open>t \<ge> 1\<close> whose orbital angle lies strictly between 120 and
  270, for a configuration \<open>c\<close> whose previous state of charge lies in
  \<open>[SOC_min, SOC_max]\<close> with \<open>SOC_min \<ge> 0\<close>, the new state of charge does not exceed the
  previous one. The loads, the time step and the self-discharge fraction of one step are
  taken non-negative, the battery capacity positive and that fraction at most 1, as the
  script's values are.
\<close>

theorem eclipse_SOC_nonincreasing:
  assumes "simulate P = Inr out" and "1 \<le> t" and "t < N_t P" and "c < N_p P"
    and "120 < theta P t" and "theta P t < 270"
    and "SOC_min P \<le> SOC out ! (t - 1) ! c" and "SOC out ! (t - 1) ! c \<le> SOC_max P"
    and "0 \<le> SOC_min P"
    and "0 \<le> P_OBC P" and "0 \<le> P_OBC P + P_ADCS P + P_COMMS P + P_PAYLOAD P"
    and "0 \<le> dt P" and "0 < E_battery P"
    and "0 \<le> self_discharge_per_day P * dt P" and "self_discharge_per_day P * dt P \<le> 86400"
  shows "SOC out ! t ! c \<le> SOC out ! (t - 1) ! c"
proof -
  have I: "inv P (N_t P) out" using assms(1) by (rule simulate_inv)
  have t: "0 < t" using assms(2) by simp
  let ?x = "SOC out ! (t - 1) ! c"
  let ?E = "E_batt_eff P (mission_years P t)"
  have solar: "step_solar P t c = 0"
    using assms(5,6) by (simp add: step_solar_def P_solar_def eclipse_of_def)
  have load: "step_load P t ?x = base_load P ?x"
    using assms(5,6) by (simp add: step_load_def load_power_eclipse)
  have eq: "SOC out ! t ! c = SOC_next P ?E 0 (base_load P ?x) ?x"
    using inv_row(1)[OF I t assms(3,4)] solar load by (simp add: step_SOC_def)
  have x0: "0 \<le> ?x" using assms(7,9) by simp
  show ?thesis
    unfolding eq
    using base_load_nonneg[OF assms(10,11)] assms(12) E_batt_eff_pos[OF assms(13)]
      assms(14,15,7) x0
    by (rule SOC_next_no_solar_le)
qed

theorem eclipse_SOC_nonincreasing_witness:
  "120 < theta default_params 20 \<and> theta default_params 20 < 270 \<and>
   (\<exists>out. simulate default_params = Inr out \<and>
      SOC_min default_params \<le> SOC out ! 19 ! 3 \<and> SOC out ! 19 ! 3 \<le> SOC_max default_params \<and>
      SOC out ! 20 ! 3 \<le> SOC out ! 19 ! 3)"
proof -
  obtain out where out: "simulate default_params = Inr out" using default_runs by blast
  have h2: "(1::nat) \<le> 20" by simp
  have h3: "20 < N_t default_params" by (simp add: Nt_default)
  have h4: "3 < N_p default_params" by (simp add: N_p_def default_params_def)
  have th: "120 < theta default_params 20" "theta default_params 20 < 270"
    by (simp_all add: theta_default_20)
  have b0: "SOC_min default_params \<le> SOC_init default_params"
    "SOC_init default_params \<le> SOC_max default_params"
    by (simp_all add: default_params_def)
  have "19 < N_t default_params" by (simp add: Nt_default)
  from inv_SOC_bounds[OF simulate_inv[OF out] b0 this h4]
  have b: "SOC_min default_params \<le> SOC out ! (20 - 1) ! 3"
    "SOC out ! (20 - 1) ! 3 \<le> SOC_max default_params" by simp_all
  have p: "0 \<le> SOC_min default_params" "0 \<le> P_OBC default_params"
    "0 \<le> P_OBC default_params + P_ADCS default_params + P_COMMS default_params
       + P_PAYLOAD default_params"
    "0 \<le> dt default_params" "0 < E_battery default_params"
    "0 \<le> self_discharge_per_day default_params * dt default_params"
    "self_discharge_per_day default_params * dt default_params \<le> 86400"
    by (simp_all add: default_params_def)
  have "SOC out ! 20 ! 3 \<le> SOC out ! (20 - 1) ! 3"
    using eclipse_SOC_nonincreasing[OF out h2 h3 h4 th b p] .
  then show ?thesis using out th b by auto
qed

section \<open>The scenario at the first point of the time grid\<close>

lemma sqrt2_bounds: "1.41421 < sqrt 2" "sqrt 2 < 1.41422"
proof -
  show "1.41421 < sqrt 2" by (rule real_less_rsqrt) (simp add: power2_eq_square)
  show "sqrt 2 < 1.41422" by (rule real_less_lsqrt) (simp_all add: power2_eq_square)
qed

lemma cos_radians_minus_45: "cos (radians (- 45)) = sqrt 2 / 2"
proof -
  have "radians (- 45) = - (pi / 4)" by (simp add: radians_def)
  then show ?thesis by (simp add: cos_45)
qed

lemma theta_default_0: "theta default_params 0 = 0"
  by (simp add: theta_def fmod_def time_def)

lemma f_theta_0: "f_theta_of 0 = 0.6 + 0.2 * sqrt 2"
proof -
  have "f_theta_of 0 = max (0.6 + 0.4 * (sqrt 2 / 2)) 0"
    by (simp add: f_theta_of_def cos_radians_minus_45)
  moreover have "(0::real) \<le> 0.6 + 0.4 * (sqrt 2 / 2)" by (simp add: add_nonneg_nonneg)
  ultimately show ?thesis by simp
qed

lemma P_solar_default_4_panels:
  "P_solar default_params 3 f 1 = 27.22 * 0.30 * 0.95 * 0.97 * f"
  by (simp add: P_solar_def P_max_def A_total_def default_params_def)

lemma P_solar_at_theta_0:
  "6.64 < P_solar default_params 3 (f_theta_of 0) 1"
  "P_solar default_params 3 (f_theta_of 0) 1 < 6.65"
  using sqrt2_bounds by (simp_all add: P_solar_default_4_panels f_theta_0)

lemma P_solar_hist_row_0:
  assumes "simulate P = Inr out" "p < N_p P"
  shows "P_solar_hist out ! 0 ! p = 0"
  using simulate_inv[OF assms(1)] assms(2) by (simp add: inv_def)

lemma P_solar_hist_at_default_0: "P_solar_hist_at default_params 0 3 = Inr 0"
proof -
  obtain out where out: "simulate default_params = Inr out" using default_runs by blast
  have "3 < N_p default_params" by (simp add: N_p_def default_params_def)
  then have "P_solar_hist out ! 0 ! 3 = 0" using out by (intro P_solar_hist_row_0)
  then show ?thesis using out by (simp add: P_solar_hist_at_def)
qed

text \<open>
  Against claim C9 as stated: with the script's values the solar power stored at time
  index 0 for the 4-panel configuration is 0, and the value of the solar-power formula at
  the geometry of index 0 is above 6.64 W, not 6.60 W.
\<close>

theorem solar_power_at_index_0_counterexample:
  "P_solar_hist_at default_params 0 3 = Inr 0 \<and>
   6.64 < P_solar default_params 3 (f_theta_of (theta default_params 0))
            (eclipse_of (theta default_params 0))"
  using P_solar_at_theta_0(1) P_solar_hist_at_default_0
  by (simp add: theta_default_0 eclipse_of_def)

text \<open>
  Claim C9, amended. With \<open>dt = 100\<close> and \<open>orbit_period = 5700\<close> the orbital angle at time
  index 0 is 0, the eclipse flag is 1, the projection factor is
  \<open>0.6 + 0.4 * cos (radians (-45))\<close>, between 0.8828 and 0.8829; the 4-panel configuration
  has total area \<open>4 * 0.01 * 0.5 = 0.02\<close> and raw power 27.22 W, and the solar-power formula
  at that geometry gives \<open>27.22 * 0.30 * 0.95 * 0.97\<close> times the projection factor, between
  6.64 W and 6.65 W. The loop starts at index 1, so the solar power stored at index 0 is 0.
\<close>

theorem solar_power_scenario:
  "theta default_params 0 = 0 \<and>
   eclipse_of (theta default_params 0) = 1 \<and>
   f_theta_of (theta default_params 0) = 0.6 + 0.4 * cos (radians (- 45)) \<and>
   0.8828 < f_theta_of (theta default_params 0) \<and>
   f_theta_of (theta default_params 0) < 0.8829 \<and>
   A_total default_params 3 = 4 * 0.01 * 0.5 \<and> A_total default_params 3 = 0.02 \<and>
   P_max default_params 3 = 27.22 \<and>
   P_solar default_params 3 (f_theta_of (theta default_params 0))
       (eclipse_of (theta default_params 0))
     = 27.22 * 0.30 * 0.95 * 0.97 * f_theta_of (theta default_params 0) \<and>
   6.64 < P_solar default_params 3 (f_theta_of (theta default_params 0))
            (eclipse_of (theta default_params 0)) \<and>
   P_solar default_params 3 (f_theta_of (theta default_params 0))
       (eclipse_of (theta default_params 0)) < 6.65 \<and>
   P_solar_hist_at default_params 0 3 = Inr 0"
proof -
  have ec: "eclipse_of 0 = 1" by (simp add: eclipse_of_def)
  have f: "f_theta_of 0 = 0.6 + 0.4 * cos (radians (- 45))"
    by (simp add: f_theta_0 cos_radians_minus_45)
  have fb: "0.8828 < f_theta_of 0" "f_theta_of 0 < 0.8829"
    using sqrt2_bounds by (simp_all add: f_theta_0)
  have A: "A_total default_params 3 = 4 * 0.01 * 0.5" "A_total default_params 3 = 0.02"
    "P_max default_params 3 = 27.22"
    by (simp_all add: P_max_def A_total_def default_params_def)
  show ?thesis
    unfolding theta_default_0 ec
    using f fb A P_solar_default_4_panels[of "f_theta_of 0"] P_solar_at_theta_0
      P_solar_hist_at_default_0
    by simp
qed

section \<open>No validation of the configuration\<close>

text \<open>
  Claim C6, amended. The script does not validate its configuration: every configuration
  with a non-zero time step, a non-zero orbit period, a non-empty time grid and a
  non-empty panel-count list is accepted, whatever its bounds on the state of charge (also
  \<open>SOC_min \<ge> SOC_max\<close>) and its efficiencies (also negative ones); the run ends without an
  error, and every step \<open>t \<ge> 1\<close> has written its update of the state of charge for every
  configuration.
\<close>

theorem no_configuration_validation:
  assumes "dt P \<noteq> 0" and "orbit_period P \<noteq> 0" and "0 < N_t P" and "0 < N_p P"
  shows "\<exists>out. simulate P = Inr out \<and>
           (\<forall>t c. 1 \<le> t \<and> t < N_t P \<and> c < N_p P \<longrightarrow>
              SOC out ! t ! c =
                SOC_next P (E_batt_eff P (mission_years P t)) (P_solar_hist out ! t ! c)
                  (load_power P (theta P t) (eclipse_of (theta P t))
                     (E_batt_eff P (mission_years P t)) (SOC out ! (t - 1) ! c))
                  (SOC out ! (t - 1) ! c))"
proof -
  obtain out where out: "simulate P = Inr out"
    using simulate_runs[OF assms] by blast
  have I: "inv P (N_t P) out" using out by (rule simulate_inv)
  have "SOC out ! t ! c =
          SOC_next P (E_batt_eff P (mission_years P t)) (P_solar_hist out ! t ! c)
            (load_power P (theta P t) (eclipse_of (theta P t))
               (E_batt_eff P (mission_years P t)) (SOC out ! (t - 1) ! c))
            (SOC out ! (t - 1) ! c)"
    if "1 \<le> t \<and> t < N_t P \<and> c < N_p P" for t c
  proof -
    have t: "0 < t" "t < N_t P" and c: "c < N_p P" using that by simp_all
    show ?thesis
      using inv_row[OF I t c] by (simp add: step_SOC_def step_load_def)
  qed
  then show ?thesis using out by blast
qed

theorem no_configuration_validation_witness:
  "eta_cell (default_params\<lparr>eta_cell := - 0.30\<rparr>) < 0 \<and>
   dt (default_params\<lparr>eta_cell := - 0.30\<rparr>) \<noteq> 0 \<and>
   orbit_period (default_params\<lparr>eta_cell := - 0.30\<rparr>) \<noteq> 0 \<and>
   0 < N_t (default_params\<lparr>eta_cell := - 0.30\<rparr>) \<and>
   0 < N_p (default_params\<lparr>eta_cell := - 0.30\<rparr>) \<and>
   \<not> isl (simulate (default_params\<lparr>eta_cell := - 0.30\<rparr>))"
proof -
  let ?P = "default_params\<lparr>eta_cell := - 0.30\<rparr>"
  have h: "dt ?P \<noteq> 0" "orbit_period ?P \<noteq> 0" "0 < N_t ?P" "0 < N_p ?P"
    by (simp_all add: N_t_def t_end_def N_p_def default_params_def)
  have neg: "eta_cell ?P < 0" by (simp add: default_params_def)
  obtain out where "simulate ?P = Inr out"
    using no_configuration_validation[OF h] by blast
  then have "\<not> isl (simulate ?P)" by simp
  then show ?thesis using h neg by blast
qed

text \<open>
  Against claim C6 as stated: the script's values with \<open>SOC_min = 0.99\<close> and
  \<open>SOC_max = 0.2\<close> are an invalid configuration, and the run ends without an error.
\<close>

theorem invalid_SOC_bounds_accepted_counterexample:
  "SOC_min (default_params\<lparr>SOC_min := 0.99, SOC_max := 0.2\<rparr>)
     \<ge> SOC_max (default_params\<lparr>SOC_min := 0.99, SOC_max := 0.2\<rparr>) \<and>
   \<not> isl (simulate (default_params\<lparr>SOC_min := 0.99, SOC_max := 0.2\<rparr>))"
proof -
  let ?P = "default_params\<lparr>SOC_min := 0.99, SOC_max := 0.2\<rparr>"
  have "dt ?P \<noteq> 0" "orbit_period ?P \<noteq> 0" "0 < N_t ?P" "0 < N_p ?P"
    by (simp_all add: N_t_def t_end_def N_p_def default_params_def)
  then obtain out where "simulate ?P = Inr out" using simulate_runs[of ?P] by blast
  then show ?thesis by (simp add: default_params_def)
qed

end
